theory Spec2Isabelle
  imports Complex_Main "HOL-Library.Sublist"
begin

section \<open>The \<open>Model\<close> class of \<open>sage_analysis/model.py\<close>\<close>

text \<open>
  The class holds the configuration of one simulation run, the bin registry and the
  property store, and drives the per-snapshot aggregation over the sub-files.
  Python's floats are modelled by \<^typ>\<open>real\<close> (no rounding, no NaN), its unbounded
  integers by \<^typ>\<open>int\<close>, an attribute that has not been assigned yet by \<open>None\<close>,
  and every exception by a value of \<open>error\<close>.
\<close>

subsection \<open>Errors and outcomes\<close>

datatype error =
    RuntimeError
  | ValueError
  | KeyError
  | AttributeError
  | TypeError
  | ZeroDivisionError
  | ExternalError string

text \<open>
  A call either returns a value or raises. The object it worked on survives an exception,
  so a method returns its outcome together with the model as the call left it.
\<close>

datatype 'a outcome = Returned 'a | Raised error

subsection \<open>Data model\<close>

text \<open>
  An accumulator is a \<open>numpy\<close> array (\<open>np.zeros(n)\<close>, \<open>np.array([])\<close>) or a Python
  float (\<open>0.0\<close>).
\<close>

datatype accumulator = NdArray "real list" | Float real

type_synonym inner_dict = "string \<rightharpoonup> accumulator"

record model =
  sage_file :: string
  IMF :: string
  label :: "string option"
  sage_output_format :: "string option"
  first_file_to_analyze :: "int option"
  last_file_to_analyze :: "int option"
  random_seed :: "int option"
  plot_toggles :: "(string \<times> bool) list"
  plots_that_need_smf :: "string list"
  sample_size :: int
  sSFRcut :: real
  bins :: "string \<rightharpoonup> real list"
  properties :: "string \<rightharpoonup> inner_dict"
  num_sage_output_files :: "int option"
  box_size :: "real option"
  volume :: "real option"
  snapshot :: "int option"
  num_gals_all_files :: "int option"

text \<open>
  The last four fields are the attributes \<open>_box_size\<close>, \<open>_volume\<close>, \<open>_snapshot\<close> and
  \<open>_num_gals_all_files\<close>: \<open>__init__\<close> does not assign them, the data class does.
\<close>

subsection \<open>\<open>Model.__init__\<close>\<close>

definition Model_init ::
  "string \<Rightarrow> string option \<Rightarrow> string option \<Rightarrow> int option \<Rightarrow> int option \<Rightarrow> int option
     \<Rightarrow> int option \<Rightarrow> string \<Rightarrow> (string \<times> bool) list \<Rightarrow> string list \<Rightarrow> int \<Rightarrow> real
     \<Rightarrow> error + model" where
  "Model_init sage_file_arg sage_output_format_arg label_arg first_arg last_arg
      num_sage_output_files_arg random_seed_arg IMF_arg plot_toggles_arg
      plots_that_need_smf_arg sample_size_arg sSFRcut_arg =
    (let self = \<lparr> sage_file = sage_file_arg,
                  IMF = IMF_arg,
                  label = label_arg,
                  sage_output_format = sage_output_format_arg,
                  first_file_to_analyze = first_arg,
                  last_file_to_analyze = last_arg,
                  random_seed = random_seed_arg,
                  plot_toggles = plot_toggles_arg,
                  plots_that_need_smf = plots_that_need_smf_arg,
                  sample_size = sample_size_arg,
                  sSFRcut = sSFRcut_arg,
                  bins = Map.empty,
                  properties = Map.empty,
                  num_sage_output_files = None,
                  box_size = None,
                  volume = None,
                  snapshot = None,
                  num_gals_all_files = None \<rparr>
     in if num_sage_output_files_arg = None \<and> sage_output_format_arg = Some ''sage_binary''
        then Inl RuntimeError
        else if (first_arg = None \<or> last_arg = None)
                \<and> sage_output_format_arg = Some ''sage_binary''
        then Inl RuntimeError
        else Inr (self\<lparr>num_sage_output_files := num_sage_output_files_arg\<rparr>))"

subsection \<open>The validated setters\<close>


definition allowed_IMF :: "string list" where
  "allowed_IMF = [''Chabrier'', ''Salpeter'']"

definition IMF_setter :: "model \<Rightarrow> string \<Rightarrow> unit outcome \<times> model" where
  "IMF_setter self IMF_arg =
    (if IMF_arg \<notin> set allowed_IMF then (Raised ValueError, self)
     else (Returned (), self\<lparr>IMF := IMF_arg\<rparr>))"

subsection \<open>The property store\<close>

text \<open>
  \<open>self._properties\<close> is a \<open>defaultdict(dict)\<close>: subscripting it with a key it does not
  hold inserts an empty inner dictionary under that key and returns it. The inner
  dictionaries are plain: subscripting one with a missing name raises \<open>KeyError\<close>.
\<close>

definition properties_getitem :: "model \<Rightarrow> string \<Rightarrow> inner_dict \<times> model" where
  "properties_getitem self key =
    (case properties self key of
       Some d \<Rightarrow> (d, self)
     | None \<Rightarrow> (Map.empty, self\<lparr>properties := (properties self)(key \<mapsto> Map.empty)\<rparr>))"

text \<open>The read \<open>model.properties[key][name]\<close>.\<close>

definition read_property :: "model \<Rightarrow> string \<Rightarrow> string \<Rightarrow> accumulator outcome \<times> model" where
  "read_property self key name =
    (case properties_getitem self key of
       (d, self1) \<Rightarrow>
         (case d name of
            None \<Rightarrow> (Raised KeyError, self1)
          | Some a \<Rightarrow> (Returned a, self1)))"

text \<open>The assignment \<open>self.properties[key][name] = v\<close>.\<close>

definition properties_setitem :: "model \<Rightarrow> string \<Rightarrow> string \<Rightarrow> accumulator \<Rightarrow> model" where
  "properties_setitem self key name v =
    (case properties_getitem self key of
       (d, self1) \<Rightarrow> self1\<lparr>properties := (properties self1)(key \<mapsto> d(name \<mapsto> v))\<rparr>)"

text \<open>What the store holds at a (key, name) pair, without the side effect of a read.\<close>

definition stored :: "model \<Rightarrow> string \<Rightarrow> string \<Rightarrow> accumulator option" where
  "stored self key name = (case properties self key of None \<Rightarrow> None | Some d \<Rightarrow> d name)"

text \<open>The key \<open>f"snapshot_{snapshot}"\<close>: Python's decimal rendering of an integer.\<close>

definition digit_char :: "nat \<Rightarrow> char" where
  "digit_char d = ''0123456789'' ! d"

fun nat_digits :: "nat \<Rightarrow> string" where
  "nat_digits n =
     (if n < 10 then [digit_char n] else nat_digits (n div 10) @ [digit_char (n mod 10)])"

declare nat_digits.simps [simp del]

definition str_int :: "int \<Rightarrow> string" where
  "str_int i = (if i < 0 then CHR ''-'' # nat_digits (nat (- i)) else nat_digits (nat i))"

definition snapshot_key :: "int \<Rightarrow> string" where
  "snapshot_key snap = ''snapshot_'' @ str_int snap"

subsection \<open>The three initialisers\<close>

text \<open>
  \<open>np.arange(start, stop, step)\<close> over the reals: \<open>ceil((stop - start) / step)\<close> values
  \<open>start + i * step\<close> (none when that count is not positive); a zero step is an error.
  \<open>np.zeros(n)\<close> raises \<open>ValueError\<close> for a negative \<open>n\<close>.
\<close>

definition np_arange :: "real \<Rightarrow> real \<Rightarrow> real \<Rightarrow> error + real list" where
  "np_arange start stop step =
    (if step = 0 then Inl ZeroDivisionError
     else Inr (map (\<lambda>i. start + real i * step) [0..<nat \<lceil>(stop - start) / step\<rceil>]))"

definition np_zeros :: "int \<Rightarrow> error + accumulator" where
  "np_zeros n = (if n < 0 then Inl ValueError else Inr (NdArray (replicate (nat n) 0)))"

text \<open>
  The loop of \<open>init_binned_properties\<close>. The right-hand side \<open>np.zeros(len(bins) - 1)\<close> is
  evaluated before the store is subscripted, so a raising \<open>np.zeros\<close> leaves the store alone.
\<close>

fun init_binned_loop :: "int \<Rightarrow> string \<Rightarrow> string list \<Rightarrow> model \<Rightarrow> unit outcome \<times> model" where
  "init_binned_loop n key [] self = (Returned (), self)"
| "init_binned_loop n key (my_property # rest) self =
    (case np_zeros n of
       Inl e \<Rightarrow> (Raised e, self)
     | Inr z \<Rightarrow> init_binned_loop n key rest (properties_setitem self key my_property z))"

definition init_binned_properties ::
  "model \<Rightarrow> real \<Rightarrow> real \<Rightarrow> real \<Rightarrow> string \<Rightarrow> string list \<Rightarrow> int \<Rightarrow> unit outcome \<times> model" where
  "init_binned_properties self bin_low bin_high bin_width bin_name property_names snap =
    (case np_arange bin_low (bin_high + bin_width) bin_width of
       Inl e \<Rightarrow> (Raised e, self)
     | Inr bs \<Rightarrow>
         init_binned_loop (int (length bs) - 1) (snapshot_key snap) property_names
           (self\<lparr>bins := (bins self)(bin_name \<mapsto> bs)\<rparr>))"

definition init_scatter_properties :: "model \<Rightarrow> string list \<Rightarrow> int \<Rightarrow> model" where
  "init_scatter_properties self property_names snap =
    fold (\<lambda>my_property m. properties_setitem m (snapshot_key snap) my_property (NdArray []))
      property_names self"

definition init_single_properties :: "model \<Rightarrow> string list \<Rightarrow> int \<Rightarrow> model" where
  "init_single_properties self property_names snap =
    fold (\<lambda>my_property m. properties_setitem m (snapshot_key snap) my_property (Float 0))
      property_names self"

subsection \<open>The data class and the calculation registry\<close>

text \<open>
  \<open>self.data_class\<close> is supplied from outside the class; the engine uses four of its
  methods. Each receives the model, may change it, and may raise. \<open>read_gals\<close> returns a
  batch, or \<open>None\<close> for a sub-file to skip. The progress bar handed to \<open>read_gals\<close> is
  represented by the total it was opened with.
\<close>

record 'g data_class =
  update_snapshot_and_data_path :: "model \<Rightarrow> int \<Rightarrow> unit outcome \<times> model"
  determine_num_gals :: "model \<Rightarrow> int \<Rightarrow> unit outcome \<times> model"
  read_gals :: "model \<Rightarrow> int \<Rightarrow> int \<Rightarrow> int option \<Rightarrow> bool \<Rightarrow> 'g option outcome \<times> model"
  close_file :: "model \<Rightarrow> unit outcome \<times> model"

text \<open>
  A calculation function is called as \<open>func(self, gals, snapshot, **kwargs)\<close>; what it
  returns is discarded. The registry is a dictionary in insertion order: toggle name to
  (function, keyword arguments).
\<close>

type_synonym ('g, 'k) calc_fn = "model \<Rightarrow> 'g \<Rightarrow> int \<Rightarrow> 'k \<Rightarrow> unit outcome \<times> model"

type_synonym ('g, 'k) registry = "(string \<times> (('g, 'k) calc_fn \<times> 'k)) list"

text \<open>What the engine does to the outside world, in the order it does it.\<close>

datatype ('g, 'k) event =
    Ev_update_snapshot int
  | Ev_determine_num_gals int
  | Ev_log_info int
  | Ev_print_num_gals int
  | Ev_tqdm int
  | Ev_read_gals int int "int option" bool
  | Ev_print_registry
  | Ev_call string 'g int 'k
  | Ev_close_file
  | Ev_print_duration

type_synonym ('g, 'k) run = "unit outcome \<times> model \<times> ('g, 'k) event list"

subsection \<open>The aggregation engine\<close>

text \<open>
  A \<open>for\<close> loop whose body may raise: the first exception ends the loop, with the model as
  the body left it.
\<close>

fun for_each :: "('x \<Rightarrow> model \<Rightarrow> ('g, 'k) run) \<Rightarrow> 'x list \<Rightarrow> model \<Rightarrow> ('g, 'k) run" where
  "for_each body [] self = (Returned (), self, [])"
| "for_each body (x # xs) self =
    (case body x self of
       (Raised e, self1, evs) \<Rightarrow> (Raised e, self1, evs)
     | (Returned u, self1, evs) \<Rightarrow>
         (case for_each body xs self1 of
            (r, self2, evs2) \<Rightarrow> (r, self2, evs @ evs2)))"

definition call_entry ::
  "'g \<Rightarrow> int \<Rightarrow> string \<times> (('g, 'k) calc_fn \<times> 'k) \<Rightarrow> model \<Rightarrow> ('g, 'k) run" where
  "call_entry gals snap entry self =
    (case entry of
       (toggle, func, kwargs) \<Rightarrow>
         (case func self gals snap kwargs of
            (r, self1) \<Rightarrow> (r, self1, [Ev_call toggle gals snap kwargs])))"

definition calc_properties ::
  "model \<Rightarrow> ('g, 'k) registry \<Rightarrow> 'g \<Rightarrow> int \<Rightarrow> ('g, 'k) run" where
  "calc_properties self calculation_functions gals snap =
    for_each (call_entry gals snap) calculation_functions self"

text \<open>The body of the loop over the sub-files.\<close>

definition process_file ::
  "'g data_class \<Rightarrow> ('g, 'k) registry \<Rightarrow> int \<Rightarrow> int option \<Rightarrow> bool \<Rightarrow> int \<Rightarrow> model
     \<Rightarrow> ('g, 'k) run" where
  "process_file dc calculation_functions snap pbar debug file_num self =
    (case read_gals dc self file_num snap pbar debug of
       (Raised e, self1) \<Rightarrow> (Raised e, self1, [Ev_read_gals file_num snap pbar debug])
     | (Returned None, self1) \<Rightarrow>
         (Returned (), self1, [Ev_read_gals file_num snap pbar debug])
     | (Returned (Some gals), self1) \<Rightarrow>
         (case calc_properties self1 calculation_functions gals snap of
            (r, self2, evs) \<Rightarrow>
              (r, self2, Ev_read_gals file_num snap pbar debug # Ev_print_registry # evs)))"

text \<open>
  The \<open>try\<close> block that opens the progress bar. \<open>tqdm_imported\<close> says whether the
  module-level import of \<open>tqdm\<close> succeeded: the \<open>NameError\<close> otherwise is caught and
  leaves no progress bar.
\<close>

definition make_pbar :: "bool \<Rightarrow> bool \<Rightarrow> bool \<Rightarrow> int \<Rightarrow> int option" where
  "make_pbar tqdm_imported use_pbar debug num_gals =
    (if debug \<or> \<not> use_pbar then None
     else if tqdm_imported then Some num_gals else None)"

text \<open>
  \<open>calc_properties_all_files\<close>. The two clock reads only feed the debug message.
\<close>

definition calc_properties_all_files ::
  "bool \<Rightarrow> 'g data_class \<Rightarrow> model \<Rightarrow> ('g, 'k) registry \<Rightarrow> int \<Rightarrow> bool \<Rightarrow> bool \<Rightarrow> bool
     \<Rightarrow> ('g, 'k) run" where
  "calc_properties_all_files tqdm_imported dc self calculation_functions snap
      close_file_arg use_pbar debug =
    (case update_snapshot_and_data_path dc self snap of
       (Raised e, s1) \<Rightarrow> (Raised e, s1, [Ev_update_snapshot snap])
     | (Returned u1, s1) \<Rightarrow>
    (case determine_num_gals dc s1 snap of
       (Raised e, s2) \<Rightarrow>
         (Raised e, s2, [Ev_update_snapshot snap, Ev_determine_num_gals snap])
     | (Returned u2, s2) \<Rightarrow>
    (case num_gals_all_files s2 of
       None \<Rightarrow>
         (Raised AttributeError, s2, [Ev_update_snapshot snap, Ev_determine_num_gals snap])
     | Some n \<Rightarrow>
         if n = 0 then
           (case snapshot s2 of
              None \<Rightarrow>
                (Raised AttributeError, s2,
                 [Ev_update_snapshot snap, Ev_determine_num_gals snap])
            | Some sn \<Rightarrow>
                (Returned (), s2,
                 [Ev_update_snapshot snap, Ev_determine_num_gals snap,
                  Ev_log_info sn, Ev_print_num_gals n]))
         else
           (let pbar = make_pbar tqdm_imported use_pbar debug n;
                evs0 = [Ev_update_snapshot snap, Ev_determine_num_gals snap]
                       @ (case pbar of None \<Rightarrow> [] | Some t \<Rightarrow> [Ev_tqdm t])
            in (case first_file_to_analyze s2 of
                  None \<Rightarrow> (Raised TypeError, s2, evs0)
                | Some first_file \<Rightarrow>
               (case last_file_to_analyze s2 of
                  None \<Rightarrow> (Raised TypeError, s2, evs0)
                | Some last_file \<Rightarrow>
               (case for_each (process_file dc calculation_functions snap pbar debug)
                       [first_file..last_file] s2 of
                  (Raised e, s3, evs) \<Rightarrow> (Raised e, s3, evs0 @ evs)
                | (Returned u3, s3, evs) \<Rightarrow>
                    if close_file_arg then
                      (case close_file dc s3 of
                         (Raised e, s4) \<Rightarrow> (Raised e, s4, evs0 @ evs @ [Ev_close_file])
                       | (Returned u4, s4) \<Rightarrow>
                           (Returned (), s4,
                            evs0 @ evs @ [Ev_close_file]
                            @ (if debug then [Ev_print_duration] else [])))
                    else
                      (Returned (), s3,
                       evs0 @ evs @ (if debug then [Ev_print_duration] else [])))))))))"

text \<open>Reading the record of a run.\<close>

definition entry_call ::
  "'g \<Rightarrow> int \<Rightarrow> string \<times> (('g, 'k) calc_fn \<times> 'k) \<Rightarrow> ('g, 'k) event" where
  "entry_call gals snap entry =
    (case entry of (toggle, func, kwargs) \<Rightarrow> Ev_call toggle gals snap kwargs)"

fun files_read :: "('g, 'k) event list \<Rightarrow> int list" where
  "files_read [] = []"
| "files_read (Ev_read_gals file_num snap pbar debug # evs) = file_num # files_read evs"
| "files_read (ev # evs) = files_read evs"

fun calls_made :: "('g, 'k) event list \<Rightarrow> (string \<times> 'g \<times> int \<times> 'k) list" where
  "calls_made [] = []"
| "calls_made (Ev_call toggle gals snap kwargs # evs) =
     (toggle, gals, snap, kwargs) # calls_made evs"
| "calls_made (ev # evs) = calls_made evs"

fun closes :: "('g, 'k) event list \<Rightarrow> nat" where
  "closes [] = 0"
| "closes (Ev_close_file # evs) = Suc (closes evs)"
| "closes (ev # evs) = closes evs"

fun bars_opened :: "('g, 'k) event list \<Rightarrow> nat" where
  "bars_opened [] = 0"
| "bars_opened (Ev_tqdm t # evs) = Suc (bars_opened evs)"
| "bars_opened (ev # evs) = bars_opened evs"

subsection \<open>Example data\<close>

text \<open>A model as the constructor and an HDF5 data class leave it, used in the examples.\<close>

definition demo_model :: model where
  "demo_model =
     \<lparr> sage_file = ''mini.ini'',
       IMF = ''Chabrier'',
       label = Some ''Mini'',
       sage_output_format = Some ''sage_hdf5'',
       first_file_to_analyze = Some 0,
       last_file_to_analyze = Some 1,
       random_seed = None,
       plot_toggles = [(''SMF'', True)],
       plots_that_need_smf = [''SMF''],
       sample_size = 1000,
       sSFRcut = - 11,
       bins = Map.empty,
       properties = Map.empty,
       num_sage_output_files = None,
       box_size = Some 2,
       volume = Some 1,
       snapshot = None,
       num_gals_all_files = None \<rparr>"

text \<open>
  The store of \<open>demo_model\<close> after \<open>init_single_properties(["TotalMass", "NumGals"], 7)\<close>.
\<close>

definition demo_store :: model where
  "demo_store = init_single_properties demo_model [''TotalMass'', ''NumGals''] 7"

text \<open>
  Two calculation functions in the style of the package's \<open>calc_*\<close> functions: each adds
  to a scalar accumulator it expects to be initialised. A batch is the list of the
  galaxies' masses; the keyword argument is a scale factor.
\<close>

definition add_to_scalar :: "string \<Rightarrow> real \<Rightarrow> model \<Rightarrow> int \<Rightarrow> unit outcome \<times> model" where
  "add_to_scalar name x self snap =
    (case read_property self (snapshot_key snap) name of
       (Raised e, self1) \<Rightarrow> (Raised e, self1)
     | (Returned (NdArray xs), self1) \<Rightarrow> (Raised TypeError, self1)
     | (Returned (Float y), self1) \<Rightarrow>
         (Returned (), properties_setitem self1 (snapshot_key snap) name (Float (y + x))))"

definition calc_total_mass :: "(real list, real) calc_fn" where
  "calc_total_mass self gals snap scale =
     add_to_scalar ''TotalMass'' (scale * sum_list gals) self snap"

definition calc_num_gals :: "(real list, real) calc_fn" where
  "calc_num_gals self gals snap scale =
     add_to_scalar ''NumGals'' (scale * real (length gals)) self snap"

definition demo_registry :: "(real list, real) registry" where
  "demo_registry = [(''TotalMass'', calc_total_mass, 1), (''NumGals'', calc_num_gals, 1)]"

text \<open>
  A data class with two galaxies in sub-file 0 and nothing to read in any other
  sub-file, and one that finds no galaxies at all.
\<close>

definition demo_data_class :: "real list data_class" where
  "demo_data_class =
     \<lparr> update_snapshot_and_data_path = (\<lambda>m snap. (Returned (), m\<lparr>snapshot := Some snap\<rparr>)),
       determine_num_gals = (\<lambda>m snap. (Returned (), m\<lparr>num_gals_all_files := Some 2\<rparr>)),
       read_gals = (\<lambda>m file_num snap pbar debug.
                      (Returned (if file_num = 0 then Some [1, 2] else None), m)),
       close_file = (\<lambda>m. (Returned (), m)) \<rparr>"

definition empty_data_class :: "real list data_class" where
  "empty_data_class =
     \<lparr> update_snapshot_and_data_path = (\<lambda>m snap. (Returned (), m\<lparr>snapshot := Some snap\<rparr>)),
       determine_num_gals = (\<lambda>m snap. (Returned (), m\<lparr>num_gals_all_files := Some 0\<rparr>)),
       read_gals = (\<lambda>m file_num snap pbar debug. (Returned None, m)),
       close_file = (\<lambda>m. (Returned (), m)) \<rparr>"

section \<open>The property store and its initialisers\<close>


lemma properties_setitem_eq:
  "properties_setitem m key name v =
     m\<lparr>properties := (properties m)(key \<mapsto>
        (case properties m key of None \<Rightarrow> Map.empty | Some d \<Rightarrow> d)(name \<mapsto> v))\<rparr>"
  by (simp add: properties_setitem_def properties_getitem_def split: option.splits)

lemma stored_setitem:
  "stored (properties_setitem m key name v) k q =
     (if k = key \<and> q = name then Some v else stored m k q)"
  by (simp add: properties_setitem_eq stored_def split: option.splits)

lemma properties_setitem_other:
  "k \<noteq> key \<Longrightarrow> properties (properties_setitem m key name v) k = properties m k"
  by (simp add: properties_setitem_eq)

lemma bins_setitem: "bins (properties_setitem m key name v) = bins m"
  by (simp add: properties_setitem_eq)

lemma fold_setitem_stored:
  "stored (fold (\<lambda>p m. properties_setitem m key p v) names m) k q =
     (if k = key \<and> q \<in> set names then Some v else stored m k q)"
  by (induction names arbitrary: m) (auto simp: stored_setitem)

lemma fold_setitem_other:
  "k \<noteq> key \<Longrightarrow> properties (fold (\<lambda>p m. properties_setitem m key p v) names m) k = properties m k"
  by (induction names arbitrary: m) (auto simp: properties_setitem_other)

lemma fold_setitem_bins:
  "bins (fold (\<lambda>p m. properties_setitem m key p v) names m) = bins m"
  by (induction names arbitrary: m) (auto simp: bins_setitem)

lemma init_binned_loop_ok:
  "0 \<le> n \<Longrightarrow> init_binned_loop n key names m =
     (Returned (), fold (\<lambda>p m. properties_setitem m key p (NdArray (replicate (nat n) 0))) names m)"
  by (induction names arbitrary: m) (auto simp: np_zeros_def)

lemma init_binned_loop_fail:
  "n < 0 \<Longrightarrow> init_binned_loop n key names m =
     (if names = [] then (Returned (), m) else (Raised ValueError, m))"
  by (cases names) (auto simp: np_zeros_def)


text \<open>Different snapshots have different keys: the decimal rendering is injective.\<close>

lemma digit_char_inj:
  assumes "a < 10" and "b < 10" and "digit_char a = digit_char b"
  shows "a = b"
proof -
  have d: "distinct ''0123456789''" by simp
  have l: "length ''0123456789'' = 10" by simp
  show ?thesis
    using assms nth_eq_iff_index_eq [OF d, of a b] unfolding digit_char_def l by simp
qed

lemma digit_char_not_minus:
  assumes "a < 10"
  shows "digit_char a \<noteq> CHR ''-''"
proof -
  have "digit_char a \<in> set ''0123456789''"
    unfolding digit_char_def using assms by (intro nth_mem) simp
  then show ?thesis by auto
qed

lemma nat_digits_nonempty: "nat_digits n \<noteq> []"
  by (subst nat_digits.simps) simp

lemma nat_digits_no_minus: "CHR ''-'' \<notin> set (nat_digits n)"
proof (induction n rule: nat_digits.induct)
  case (1 n)
  show ?case
  proof (cases "n < 10")
    case True
    then show ?thesis
      using digit_char_not_minus [of n] by (subst nat_digits.simps) auto
  next
    case False
    have "n mod 10 < 10" by simp
    then have "digit_char (n mod 10) \<noteq> CHR ''-''" by (rule digit_char_not_minus)
    then show ?thesis
      using False 1 by (subst nat_digits.simps) auto
  qed
qed

lemma nat_digits_inj: "nat_digits n = nat_digits m \<Longrightarrow> n = m"
proof (induction n arbitrary: m rule: nat_digits.induct)
  case (1 n)
  show ?case
  proof (cases "n < 10")
    case n: True
    show ?thesis
    proof (cases "m < 10")
      case True
      then show ?thesis
        using n "1.prems" digit_char_inj [of n m]
        by (simp add: nat_digits.simps [of n] nat_digits.simps [of m])
    next
      case False
      have "nat_digits (m div 10) \<noteq> []" by (rule nat_digits_nonempty)
      then show ?thesis
        using n False "1.prems"
        by (simp add: nat_digits.simps [of n] nat_digits.simps [of m])
    qed
  next
    case n: False
    show ?thesis
    proof (cases "m < 10")
      case True
      have "nat_digits (n div 10) \<noteq> []" by (rule nat_digits_nonempty)
      then show ?thesis
        using n True "1.prems"
        by (simp add: nat_digits.simps [of n] nat_digits.simps [of m])
    next
      case False
      have eq: "nat_digits (n div 10) = nat_digits (m div 10)"
        and dg: "digit_char (n mod 10) = digit_char (m mod 10)"
        using n False "1.prems"
        by (simp_all add: nat_digits.simps [of n] nat_digits.simps [of m])
      have "n div 10 = m div 10"
        using "1.IH" [OF n eq] .
      moreover have "n mod 10 = m mod 10"
        using dg by (intro digit_char_inj) simp_all
      ultimately show ?thesis
        by (metis div_mult_mod_eq)
    qed
  qed
qed

lemma str_int_inj: "str_int a = str_int b \<Longrightarrow> a = b"
proof -
  assume eq: "str_int a = str_int b"
  have hd_no: "hd (nat_digits k) \<noteq> CHR ''-''" for k
    using nat_digits_no_minus [of k] nat_digits_nonempty [of k]
    by (metis hd_in_set)
  show ?thesis
  proof (cases "a < 0"; cases "b < 0")
    assume "a < 0" "b < 0"
    then have "nat (- a) = nat (- b)"
      using eq nat_digits_inj by (simp add: str_int_def)
    then show ?thesis using \<open>a < 0\<close> \<open>b < 0\<close> by simp
  next
    assume "a < 0" "\<not> b < 0"
    then have "CHR ''-'' # nat_digits (nat (- a)) = nat_digits (nat b)"
      using eq by (simp add: str_int_def)
    then have "hd (nat_digits (nat b)) = CHR ''-''"
      by (metis list.sel(1))
    then show ?thesis using hd_no by blast
  next
    assume "\<not> a < 0" "b < 0"
    then have "nat_digits (nat a) = CHR ''-'' # nat_digits (nat (- b))"
      using eq by (simp add: str_int_def)
    then have "hd (nat_digits (nat a)) = CHR ''-''"
      by (metis list.sel(1))
    then show ?thesis using hd_no by blast
  next
    assume "\<not> a < 0" "\<not> b < 0"
    then have "nat a = nat b"
      using eq nat_digits_inj by (simp add: str_int_def)
    then show ?thesis using \<open>\<not> a < 0\<close> \<open>\<not> b < 0\<close> by simp
  qed
qed

lemma snapshot_key_inj: "snapshot_key a = snapshot_key b \<Longrightarrow> a = b"
  by (simp add: snapshot_key_def str_int_inj)








text \<open>
  C10: the three initialisers, called with snapshot \<open>snap\<close> and names \<open>property_names\<close>,
  leave alone what the store holds at every pair \<open>(k, p)\<close> where \<open>k\<close> is another
  snapshot key or \<open>p\<close> is not one of the names; the whole inner dictionary of any other
  snapshot key, so of any other snapshot, is unchanged; \<open>init_binned_properties\<close>
  changes the bin registry at
  \<open>bin_name\<close> only, the other two do not change it at all. This holds on the raising
  paths of \<open>init_binned_properties\<close> as well.
\<close>

theorem init_touches_only_named_entries:
  assumes "k \<noteq> snapshot_key snap \<or> p \<notin> set property_names"
    and "b \<noteq> bin_name"
    and "snap' \<noteq> snap"
  shows "stored (snd (init_binned_properties self bin_low bin_high bin_width bin_name
                        property_names snap)) k p = stored self k p
       \<and> stored (init_scatter_properties self property_names snap) k p = stored self k p
       \<and> stored (init_single_properties self property_names snap) k p = stored self k p
       \<and> (k \<noteq> snapshot_key snap \<longrightarrow>
            properties (snd (init_binned_properties self bin_low bin_high bin_width bin_name
                               property_names snap)) k = properties self k
          \<and> properties (init_scatter_properties self property_names snap) k = properties self k
          \<and> properties (init_single_properties self property_names snap) k = properties self k)
       \<and> properties (snd (init_binned_properties self bin_low bin_high bin_width bin_name
                            property_names snap)) (snapshot_key snap')
           = properties self (snapshot_key snap')
       \<and> properties (init_scatter_properties self property_names snap) (snapshot_key snap')
           = properties self (snapshot_key snap')
       \<and> properties (init_single_properties self property_names snap) (snapshot_key snap')
           = properties self (snapshot_key snap')
       \<and> bins (snd (init_binned_properties self bin_low bin_high bin_width bin_name
                       property_names snap)) b = bins self b
       \<and> bins (init_scatter_properties self property_names snap) = bins self
       \<and> bins (init_single_properties self property_names snap) = bins self"
proof -
  let ?key = "snapshot_key snap"
  let ?r = "init_binned_properties self bin_low bin_high bin_width bin_name property_names snap"
  have sc: "stored (init_scatter_properties self property_names snap) k p = stored self k p"
    using assms(1) by (auto simp: init_scatter_properties_def fold_setitem_stored)
  have si: "stored (init_single_properties self property_names snap) k p = stored self k p"
    using assms(1) by (auto simp: init_single_properties_def fold_setitem_stored)
  have sc_bins: "bins (init_scatter_properties self property_names snap) = bins self"
    by (simp add: init_scatter_properties_def fold_setitem_bins)
  have si_bins: "bins (init_single_properties self property_names snap) = bins self"
    by (simp add: init_single_properties_def fold_setitem_bins)
  have sc_other: "properties (init_scatter_properties self property_names snap) k'
                    = properties self k'" if "k' \<noteq> ?key" for k'
    using that by (simp add: init_scatter_properties_def fold_setitem_other)
  have si_other: "properties (init_single_properties self property_names snap) k'
                    = properties self k'" if "k' \<noteq> ?key" for k'
    using that by (simp add: init_single_properties_def fold_setitem_other)
  have loop: "stored (snd (init_binned_loop n ?key property_names m)) k p = stored m k p
            \<and> (\<forall>k'. k' \<noteq> ?key \<longrightarrow>
                 properties (snd (init_binned_loop n ?key property_names m)) k' = properties m k')
            \<and> bins (snd (init_binned_loop n ?key property_names m)) = bins m" for n m
  proof (cases "0 \<le> n")
    case True
    then show ?thesis
      using assms(1)
      by (auto simp: init_binned_loop_ok fold_setitem_stored fold_setitem_other
            fold_setitem_bins)
  next
    case False
    then show ?thesis
      by (simp add: init_binned_loop_fail)
  qed
  have bn: "stored (snd ?r) k p = stored self k p
          \<and> (\<forall>k'. k' \<noteq> ?key \<longrightarrow> properties (snd ?r) k' = properties self k')
          \<and> bins (snd ?r) b = bins self b"
  proof (cases "np_arange bin_low (bin_high + bin_width) bin_width")
    case (Inl e)
    then show ?thesis by (simp add: init_binned_properties_def)
  next
    case (Inr bs)
    then show ?thesis
      using assms(2) loop [of "int (length bs) - 1" "self\<lparr>bins := (bins self)(bin_name \<mapsto> bs)\<rparr>"]
      by (simp add: init_binned_properties_def stored_def)
  qed
  have other_key: "snapshot_key snap' \<noteq> ?key"
    using assms(3) snapshot_key_inj by blast
  show ?thesis
    using bn sc si sc_other si_other sc_bins si_bins other_key by blast
qed

lemma stored_demo_model: "stored demo_model k p = None"
  by (simp add: stored_def demo_model_def)

lemma key7: "snapshot_key 7 = ''snapshot_7''"
  by (simp add: snapshot_key_def str_int_def nat_digits.simps digit_char_def)

text \<open>
  Initialising \<open>SMF\<close> for snapshot 7 keeps the scalar \<open>TotalMass\<close> of the same snapshot.
\<close>

theorem init_touches_only_named_entries_witness:
  "''TotalMass'' \<notin> set [''SMF''] \<and> ''sfr_bins'' \<noteq> ''mass_bins''
   \<and> stored (snd (init_binned_properties demo_store 0 2 1 ''mass_bins'' [''SMF''] 7))
        (snapshot_key 7) ''TotalMass'' = Some (Float 0)
   \<and> stored (init_scatter_properties demo_store [''SMF''] 7) (snapshot_key 7) ''TotalMass''
        = Some (Float 0)
   \<and> stored (init_single_properties demo_store [''SMF''] 7) (snapshot_key 7) ''TotalMass''
        = Some (Float 0)
   \<and> bins (snd (init_binned_properties demo_store 0 2 1 ''mass_bins'' [''SMF''] 7)) ''sfr_bins''
        = None
   \<and> (8::int) \<noteq> 7
   \<and> properties (init_single_properties demo_store [''SMF''] 7) (snapshot_key 8)
        = properties demo_store (snapshot_key 8)"
proof -
  have p: "snapshot_key 7 \<noteq> snapshot_key 7 \<or> ''TotalMass'' \<notin> set [''SMF'']"
    by simp
  have b: "''sfr_bins'' \<noteq> ''mass_bins''"
    by simp
  have "(8::int) \<noteq> 7"
    by simp
  note b = b this
  have s0: "stored demo_store (snapshot_key 7) ''TotalMass'' = Some (Float 0)"
    by (simp add: demo_store_def init_single_properties_def stored_setitem)
  have b0: "bins demo_store ''sfr_bins'' = None"
    by (simp add: demo_store_def init_single_properties_def bins_setitem demo_model_def)
  show ?thesis
    using s0 b0 init_touches_only_named_entries [OF p b, of demo_store 0 2 1]
    by simp
qed

text \<open>
  C3, amended: when the store holds nothing at \<open>(key, name)\<close>, the read
  \<open>properties[key][name]\<close> raises \<open>KeyError\<close>. The look-up of the snapshot key alone does
  not fail, though: for a key the store does not hold, it returns an empty dictionary and
  inserts it under that key.
\<close>

theorem read_of_uninitialised_property:
  assumes "stored self key name = None"
  shows "fst (read_property self key name) = Raised KeyError
       \<and> (properties self key = None \<longrightarrow>
            properties_getitem self key
              = (Map.empty, self\<lparr>properties := (properties self)(key \<mapsto> Map.empty)\<rparr>))"
  using assms
  by (auto simp: read_property_def properties_getitem_def stored_def split: option.splits)

text \<open>
  Reading \<open>SMF\<close> (never initialised) for snapshot 7, and \<open>TotalMass\<close> for snapshot 8
  (no initialiser was ever called for it).
\<close>

theorem read_of_uninitialised_property_witness:
  "stored demo_store (snapshot_key 7) ''SMF'' = None
   \<and> fst (read_property demo_store (snapshot_key 7) ''SMF'') = Raised KeyError
   \<and> stored demo_store (snapshot_key 8) ''TotalMass'' = None
   \<and> fst (read_property demo_store (snapshot_key 8) ''TotalMass'') = Raised KeyError"
proof -
  have a: "stored demo_store (snapshot_key 7) ''SMF'' = None"
    by (simp add: demo_store_def init_single_properties_def stored_setitem
          stored_demo_model)
  have k: "snapshot_key 8 \<noteq> snapshot_key 7"
    by (simp add: snapshot_key_def str_int_def nat_digits.simps digit_char_def)
  have b: "stored demo_store (snapshot_key 8) ''TotalMass'' = None"
    using k
    by (simp add: demo_store_def init_single_properties_def stored_setitem
          stored_demo_model)
  show ?thesis
    using a b read_of_uninitialised_property [OF a] read_of_uninitialised_property [OF b]
    by simp
qed

text \<open>
  C3 as stated fails: on a store with no entry for \<open>snapshot_7\<close>, the look-up
  \<open>properties["snapshot_7"]\<close> yields a dictionary with no keys, and the store holds the key
  afterwards.
\<close>

theorem snapshot_lookup_yields_empty_mapping:
  "properties demo_model ''snapshot_7'' = None
   \<and> dom (fst (properties_getitem demo_model ''snapshot_7'')) = {}
   \<and> dom (properties (snd (properties_getitem demo_model ''snapshot_7''))) = {''snapshot_7''}"
  by (simp add: properties_getitem_def demo_model_def)


section \<open>Validation of the physical parameters\<close>

text \<open>
  C4 fails on the code: \<open>__init__\<close> assigns \<open>self._IMF\<close> directly, not through the
  validating setter, so a construction with the unrecognised label \<open>Kroupa\<close> succeeds
  and the label is stored on the model.
\<close>

theorem Model_init_accepts_unknown_IMF:
  "\<exists>m. Model_init ''mini.ini'' (Some ''sage_hdf5'') None (Some 0) (Some 0) None None
          ''Kroupa'' [] [] 1000 (- 11) = Inr m
       \<and> IMF m = ''Kroupa'' \<and> ''Kroupa'' \<notin> set allowed_IMF"
  by (simp add: Model_init_def allowed_IMF_def)



text \<open>
  C7: assigning to \<open>IMF\<close> raises exactly when the value is neither \<open>Chabrier\<close> nor
  \<open>Salpeter\<close>; a raising assignment leaves the model as it was, an accepted one stores
  the value.
\<close>

theorem IMF_setter_validates:
  "(fst (IMF_setter self v) \<noteq> Returned ()) = (v \<notin> {''Chabrier'', ''Salpeter''})
   \<and> (if v \<notin> {''Chabrier'', ''Salpeter''}
      then IMF_setter self v = (Raised ValueError, self)
           \<and> IMF (snd (IMF_setter self v)) = IMF self
      else IMF_setter self v = (Returned (), self\<lparr>IMF := v\<rparr>)
           \<and> IMF (snd (IMF_setter self v)) = v)"
  by (simp add: IMF_setter_def allowed_IMF_def)

text \<open>\<open>Salpeter\<close> is stored, \<open>Kroupa\<close> is refused and \<open>Chabrier\<close> stays.\<close>

theorem IMF_setter_validates_witness:
  "IMF_setter demo_model ''Salpeter'' = (Returned (), demo_model\<lparr>IMF := ''Salpeter''\<rparr>)
   \<and> IMF_setter demo_model ''Kroupa'' = (Raised ValueError, demo_model)
   \<and> IMF (snd (IMF_setter demo_model ''Kroupa'')) = ''Chabrier''"
proof -
  have i: "IMF demo_model = ''Chabrier''"
    by (simp add: demo_model_def)
  show ?thesis
    using i IMF_setter_validates [of demo_model "''Salpeter''"]
      IMF_setter_validates [of demo_model "''Kroupa''"]
    by simp
qed

text \<open>
  Every error of \<open>__init__\<close> concerns the binary format; the label plays no part in them,
  and a constructed model has an empty store and an empty bin registry.
\<close>

lemma Model_init_never_checks_IMF:
  "(\<exists>m. Model_init sf fmt lbl first_arg last_arg nfiles seed imf toggles smf n_sample ssfr = Inr m)
     = (\<exists>m. Model_init sf fmt lbl first_arg last_arg nfiles seed imf' toggles smf n_sample ssfr
              = Inr m)"
  by (simp add: Model_init_def Let_def)

lemma Model_init_store_empty:
  assumes "Model_init sf fmt lbl first_arg last_arg nfiles seed imf toggles smf n_sample ssfr = Inr m"
  shows "properties m = Map.empty \<and> bins m = Map.empty \<and> stored m k p = None
       \<and> IMF m = imf"
  using assms by (auto simp: Model_init_def Let_def stored_def split: if_splits)

section \<open>The aggregation engine: calls, files and closing\<close>


lemma files_read_append: "files_read (xs @ ys) = files_read xs @ files_read ys"
  by (induction xs rule: files_read.induct) simp_all

lemma calls_made_append: "calls_made (xs @ ys) = calls_made xs @ calls_made ys"
  by (induction xs rule: calls_made.induct) simp_all

lemma closes_append: "closes (xs @ ys) = closes xs + closes ys"
  by (induction xs rule: closes.induct) simp_all

lemma bars_opened_append: "bars_opened (xs @ ys) = bars_opened xs + bars_opened ys"
  by (induction xs rule: bars_opened.induct) simp_all


lemma entry_call_simp [simp]:
  "entry_call gals snap (toggle, func, kwargs) = Ev_call toggle gals snap kwargs"
  by (simp add: entry_call_def)

lemma calc_properties_Nil: "calc_properties self [] gals snap = (Returned (), self, [])"
  by (simp add: calc_properties_def)

lemma calc_properties_Cons:
  "calc_properties self ((toggle, func, kwargs) # rest) gals snap =
     (case func self gals snap kwargs of
        (Raised e, self1) \<Rightarrow> (Raised e, self1, [Ev_call toggle gals snap kwargs])
      | (Returned u, self1) \<Rightarrow>
          (case calc_properties self1 rest gals snap of
             (r, self2, evs) \<Rightarrow> (r, self2, Ev_call toggle gals snap kwargs # evs)))"
  by (simp add: calc_properties_def call_entry_def split: prod.splits outcome.splits)

lemma calc_properties_events_prefix:
  "prefix (snd (snd (calc_properties self reg gals snap))) (map (entry_call gals snap) reg)"
proof (induction reg arbitrary: self)
  case Nil
  then show ?case by (simp add: calc_properties_Nil)
next
  case (Cons entry rest)
  obtain toggle func kwargs where entry: "entry = (toggle, func, kwargs)"
    by (cases entry) auto
  obtain r1 s1 where f: "func self gals snap kwargs = (r1, s1)"
    by (cases "func self gals snap kwargs") auto
  obtain r2 s2 evs where rest: "calc_properties s1 rest gals snap = (r2, s2, evs)"
    by (cases "calc_properties s1 rest gals snap") auto
  have "prefix evs (map (entry_call gals snap) rest)"
    using Cons.IH [of s1] by (simp add: rest)
  then show ?case
    by (cases r1) (simp_all add: entry calc_properties_Cons f rest)
qed

lemma calc_properties_returned:
  "fst (calc_properties self reg gals snap) = Returned () \<Longrightarrow>
     snd (snd (calc_properties self reg gals snap)) = map (entry_call gals snap) reg
   \<and> fst (snd (calc_properties self reg gals snap))
       = fold (\<lambda>(toggle, func, kwargs) m. snd (func m gals snap kwargs)) reg self"
proof (induction reg arbitrary: self)
  case Nil
  then show ?case by (simp add: calc_properties_Nil)
next
  case (Cons entry rest)
  obtain toggle func kwargs where entry: "entry = (toggle, func, kwargs)"
    by (cases entry) auto
  obtain r1 s1 where f: "func self gals snap kwargs = (r1, s1)"
    by (cases "func self gals snap kwargs") auto
  from Cons.prems have r1: "r1 = Returned ()"
    by (auto simp: entry calc_properties_Cons f split: outcome.splits prod.splits)
  from Cons.prems have rest: "fst (calc_properties s1 rest gals snap) = Returned ()"
    by (auto simp: entry calc_properties_Cons f r1 split: outcome.splits prod.splits)
  show ?case
    using Cons.IH [OF rest]
    by (auto simp: entry calc_properties_Cons f r1 split: prod.splits)
qed


lemma filter_distinct_key:
  "distinct (map fst reg) \<Longrightarrow> t \<in> fst ` set reg \<Longrightarrow>
     length (filter (\<lambda>e. fst e = t) reg) = 1"
proof (induction reg)
  case Nil
  then show ?case by simp
next
  case (Cons e rest)
  show ?case
  proof (cases "fst e = t")
    case True
    then have "t \<notin> fst ` set rest" using Cons.prems(1) by auto
    then have "filter (\<lambda>e. fst e = t) rest = []"
      by (auto simp: filter_empty_conv)
    then show ?thesis using True by simp
  next
    case False
    then show ?thesis using Cons by auto
  qed
qed

lemma for_each_events_invariant:
  assumes "\<And>x m. P (snd (snd (body x m)))"
    and "P []"
    and "\<And>xs ys. P xs \<Longrightarrow> P ys \<Longrightarrow> P (xs @ ys)"
  shows "P (snd (snd (for_each body xs m)))"
proof (induction xs arbitrary: m)
  case Nil
  then show ?case using assms(2) by simp
next
  case (Cons x xs)
  obtain r1 m1 evs1 where b: "body x m = (r1, m1, evs1)"
    by (cases "body x m") auto
  obtain r2 m2 evs2 where l: "for_each body xs m1 = (r2, m2, evs2)"
    by (cases "for_each body xs m1") auto
  have p1: "P evs1" using assms(1) [of x m] by (simp add: b)
  have p2: "P evs2" using Cons [of m1] by (simp add: l)
  show ?case
    using p1 assms(3) [OF p1 p2] by (cases r1) (simp_all add: b l)
qed

lemma call_entry_events:
  "snd (snd (call_entry gals snap entry m)) = [entry_call gals snap entry]"
  by (cases entry) (simp add: call_entry_def split: prod.splits)

lemma calc_properties_no_other_events:
  "files_read (snd (snd (calc_properties self reg gals snap))) = []
   \<and> closes (snd (snd (calc_properties self reg gals snap))) = 0
   \<and> bars_opened (snd (snd (calc_properties self reg gals snap))) = 0"
  unfolding calc_properties_def
  by (rule for_each_events_invariant)
     (simp_all add: call_entry_events entry_call_def files_read_append closes_append
        bars_opened_append split: prod.splits)

lemma process_file_events:
  "files_read (snd (snd (process_file dc reg snap pbar dbg f m))) = [f]
   \<and> closes (snd (snd (process_file dc reg snap pbar dbg f m))) = 0
   \<and> bars_opened (snd (snd (process_file dc reg snap pbar dbg f m))) = 0"
proof -
  obtain r m1 where rd: "read_gals dc m f snap pbar dbg = (r, m1)"
    by (cases "read_gals dc m f snap pbar dbg") auto
  show ?thesis
  proof (cases r)
    case (Raised e)
    then show ?thesis by (simp add: process_file_def rd)
  next
    case (Returned g)
    show ?thesis
    proof (cases g)
      case None
      then show ?thesis by (simp add: process_file_def rd Returned)
    next
      case (Some gals)
      then show ?thesis
        using calc_properties_no_other_events [of m1 reg gals snap]
        by (auto simp: process_file_def rd Returned split: prod.splits)
    qed
  qed
qed

text \<open>A batch that is not \<open>None\<close> goes to \<open>calc_properties\<close>, on the model the read left.\<close>

lemma process_file_calls_registry:
  assumes "read_gals dc m f snap pbar dbg = (Returned (Some gals), m1)"
  shows "process_file dc reg snap pbar dbg f m =
           (case calc_properties m1 reg gals snap of
              (r, m2, evs) \<Rightarrow>
                (r, m2, Ev_read_gals f snap pbar dbg # Ev_print_registry # evs))"
  using assms by (simp add: process_file_def)

lemma file_loop_no_close_no_bar:
  "closes (snd (snd (for_each (process_file dc reg snap pbar dbg) fs m))) = 0
   \<and> bars_opened (snd (snd (for_each (process_file dc reg snap pbar dbg) fs m))) = 0"
  by (rule for_each_events_invariant)
     (simp_all add: process_file_events closes_append bars_opened_append)

lemma file_loop_files_read:
  "prefix (files_read (snd (snd (for_each (process_file dc reg snap pbar dbg) fs m)))) fs
   \<and> (fst (for_each (process_file dc reg snap pbar dbg) fs m) = Returned () \<longrightarrow>
        files_read (snd (snd (for_each (process_file dc reg snap pbar dbg) fs m))) = fs)"
proof (induction fs arbitrary: m)
  case Nil
  then show ?case by simp
next
  case (Cons f fs)
  let ?body = "process_file dc reg snap pbar dbg"
  obtain r1 m1 evs1 where b: "?body f m = (r1, m1, evs1)"
    by (cases "?body f m") auto
  obtain r2 m2 evs2 where l: "for_each ?body fs m1 = (r2, m2, evs2)"
    by (cases "for_each ?body fs m1") auto
  have e1: "files_read evs1 = [f]"
    using process_file_events [of dc reg snap pbar dbg f m] by (simp add: b)
  have ih: "prefix (files_read evs2) fs \<and> (r2 = Returned () \<longrightarrow> files_read evs2 = fs)"
    using Cons [of m1] by (simp add: l)
  show ?case
    using e1 ih by (cases r1) (simp_all add: b l files_read_append)
qed

lemma file_loop_skips_sentinel:
  assumes "read_gals dc m f snap pbar dbg = (Returned None, m1)"
  shows "for_each (process_file dc reg snap pbar dbg) (f # fs) m =
           (case for_each (process_file dc reg snap pbar dbg) fs m1 of
              (r, m2, evs) \<Rightarrow> (r, m2, Ev_read_gals f snap pbar dbg # evs))"
  using assms by (simp add: process_file_def split: prod.splits)


lemma calls_made_entry_calls:
  "calls_made (map (entry_call gals snap) reg)
     = map (\<lambda>(toggle, func, kwargs). (toggle, gals, snap, kwargs)) reg"
  by (induction reg) (auto simp: entry_call_def split: prod.splits)

text \<open>
  C9: \<open>calc_properties\<close> calls the entries of the registry in insertion order, each
  as \<open>func(self, gals, snapshot, **kwargs)\<close> with the entry's own keyword arguments:
  the calls made are always an initial part of the registry's entries, and when the call
  returns (no function raised) they are exactly the entries, one call for each toggle
  name, and the model is the one obtained by running the functions one after the
  other, each on the model the previous one left.
\<close>

theorem calc_properties_invokes_registry_in_order:
  assumes "distinct (map fst reg)"
  shows "prefix (snd (snd (calc_properties self reg gals snap)))
           (map (entry_call gals snap) reg)
       \<and> (fst (calc_properties self reg gals snap) = Returned () \<longrightarrow>
            snd (snd (calc_properties self reg gals snap)) = map (entry_call gals snap) reg
          \<and> calls_made (snd (snd (calc_properties self reg gals snap)))
              = map (\<lambda>(toggle, func, kwargs). (toggle, gals, snap, kwargs)) reg
          \<and> (\<forall>t\<in>fst ` set reg.
                length (filter (\<lambda>c. fst c = t)
                  (calls_made (snd (snd (calc_properties self reg gals snap))))) = 1)
          \<and> fst (snd (calc_properties self reg gals snap))
              = fold (\<lambda>(toggle, func, kwargs) m. snd (func m gals snap kwargs)) reg self)"
proof -
  let ?run = "calc_properties self reg gals snap"
  let ?sig = "\<lambda>(toggle, func, kwargs). (toggle, gals, snap, kwargs)"
  have pre: "prefix (snd (snd ?run)) (map (entry_call gals snap) reg)"
    by (rule calc_properties_events_prefix)
  have full: "snd (snd ?run) = map (entry_call gals snap) reg
            \<and> calls_made (snd (snd ?run)) = map ?sig reg
            \<and> (\<forall>t\<in>fst ` set reg.
                  length (filter (\<lambda>c. fst c = t) (calls_made (snd (snd ?run)))) = 1)
            \<and> fst (snd ?run)
                = fold (\<lambda>(toggle, func, kwargs) m. snd (func m gals snap kwargs)) reg self"
    if ret: "fst ?run = Returned ()"
  proof -
    have evs: "snd (snd ?run) = map (entry_call gals snap) reg"
      using calc_properties_returned [OF ret] by simp
    have calls: "calls_made (snd (snd ?run)) = map ?sig reg"
      by (simp add: evs calls_made_entry_calls)
    have once: "length (filter (\<lambda>c. fst c = t) (calls_made (snd (snd ?run)))) = 1"
      if t: "t \<in> fst ` set reg" for t
    proof -
      have "filter (\<lambda>c. fst c = t) (map ?sig reg) = map ?sig (filter (\<lambda>e. fst e = t) reg)"
        by (induction reg) auto
      then show ?thesis
        using filter_distinct_key [OF assms t] by (simp add: calls)
    qed
    have st: "fst (snd ?run)
          = fold (\<lambda>(toggle, func, kwargs) m. snd (func m gals snap kwargs)) reg self"
      using calc_properties_returned [OF ret] by simp
    show ?thesis
      using evs calls once st by blast
  qed
  show ?thesis
    using pre full by blast
qed

lemma add_to_scalar_stored:
  assumes "stored m (snapshot_key snap) name = Some (Float y)"
  shows "add_to_scalar name x m snap
           = (Returned (), properties_setitem m (snapshot_key snap) name (Float (y + x)))"
  using assms
  by (auto simp: add_to_scalar_def read_property_def properties_getitem_def stored_def
        split: option.splits)

lemma demo_registry_run:
  assumes "stored m (snapshot_key snap) ''TotalMass'' = Some (Float x)"
    and "stored m (snapshot_key snap) ''NumGals'' = Some (Float y)"
  shows "calc_properties m demo_registry gals snap =
           (Returned (),
            properties_setitem
              (properties_setitem m (snapshot_key snap) ''TotalMass'' (Float (x + sum_list gals)))
              (snapshot_key snap) ''NumGals'' (Float (y + real (length gals))),
            [Ev_call ''TotalMass'' gals snap 1, Ev_call ''NumGals'' gals snap 1])"
proof -
  let ?m1 = "properties_setitem m (snapshot_key snap) ''TotalMass'' (Float (x + sum_list gals))"
  have a: "calc_total_mass m gals snap 1 = (Returned (), ?m1)"
    using add_to_scalar_stored [OF assms(1)] by (simp add: calc_total_mass_def)
  have "stored ?m1 (snapshot_key snap) ''NumGals'' = Some (Float y)"
    using assms(2) by (simp add: stored_setitem)
  then have b: "calc_num_gals ?m1 gals snap 1
      = (Returned (), properties_setitem ?m1 (snapshot_key snap) ''NumGals''
                        (Float (y + real (length gals))))"
    using add_to_scalar_stored by (simp add: calc_num_gals_def)
  show ?thesis
    by (simp add: demo_registry_def calc_properties_Cons calc_properties_Nil a b)
qed

lemma stored_demo_store:
  "stored demo_store (snapshot_key 7) ''TotalMass'' = Some (Float 0)"
  "stored demo_store (snapshot_key 7) ''NumGals'' = Some (Float 0)"
  by (simp_all add: demo_store_def init_single_properties_def stored_setitem)

text \<open>
  The two functions of \<open>demo_registry\<close> on a batch of two galaxies.
\<close>

theorem calc_properties_invokes_registry_in_order_witness:
  "distinct (map fst demo_registry)
   \<and> fst (calc_properties demo_store demo_registry [1, 2] 7) = Returned ()
   \<and> snd (snd (calc_properties demo_store demo_registry [1, 2] 7))
       = [Ev_call ''TotalMass'' [1, 2] 7 1, Ev_call ''NumGals'' [1, 2] 7 1]
   \<and> calls_made (snd (snd (calc_properties demo_store demo_registry [1, 2] 7)))
       = [(''TotalMass'', [1, 2], 7, 1), (''NumGals'', [1, 2], 7, 1)]"
proof -
  have d: "distinct (map fst demo_registry)"
    by (simp add: demo_registry_def)
  have r: "fst (calc_properties demo_store demo_registry [1, 2] 7) = Returned ()"
    using demo_registry_run [OF stored_demo_store, of "[1, 2]"] by simp
  have m: "map (entry_call [1, 2] 7) demo_registry
             = [Ev_call ''TotalMass'' [1, 2] 7 1, Ev_call ''NumGals'' [1, 2] 7 1]"
    by (simp add: demo_registry_def)
  have c: "map (\<lambda>(toggle, func, kwargs). (toggle, [1::real, 2], 7::int, kwargs)) demo_registry
             = [(''TotalMass'', [1, 2], 7, 1), (''NumGals'', [1, 2], 7, 1)]"
    by (simp add: demo_registry_def)
  show ?thesis
    using d r m c
      calc_properties_invokes_registry_in_order [OF d, of demo_store "[1, 2]" 7]
    by simp
qed


lemma files_read_pbar [simp]:
  "files_read (case pbar of None \<Rightarrow> [] | Some t \<Rightarrow> [Ev_tqdm t]) = []"
  "closes (case pbar of None \<Rightarrow> [] | Some t \<Rightarrow> [Ev_tqdm t]) = 0"
  by (cases pbar; simp)+

text \<open>
  C1: when the data class has positioned the model and reports zero galaxies, and has
  itself left the property store alone, \<open>calc_properties_all_files\<close> ends with the model
  exactly as the data class left it, so with every accumulator as at entry; it calls no
  calculation function and opens no progress bar. It returns normally when
  \<open>_snapshot\<close> is set, as positioning does; the log message reads that attribute and
  raises \<open>AttributeError\<close> otherwise, still with the store untouched.
\<close>

theorem zero_galaxies_leave_store_untouched:
  assumes "update_snapshot_and_data_path dc self snap = (Returned (), s1)"
    and "determine_num_gals dc s1 snap = (Returned (), s2)"
    and "num_gals_all_files s2 = Some 0"
    and "properties s1 = properties self"
    and "properties s2 = properties s1"
  shows "calc_properties_all_files tq dc self reg snap cf up dbg =
           (case snapshot s2 of
              None \<Rightarrow> (Raised AttributeError, s2,
                        [Ev_update_snapshot snap, Ev_determine_num_gals snap])
            | Some sn \<Rightarrow> (Returned (), s2,
                          [Ev_update_snapshot snap, Ev_determine_num_gals snap,
                           Ev_log_info sn, Ev_print_num_gals 0]))
       \<and> properties (fst (snd (calc_properties_all_files tq dc self reg snap cf up dbg)))
           = properties self
       \<and> calls_made (snd (snd (calc_properties_all_files tq dc self reg snap cf up dbg))) = []
       \<and> bars_opened (snd (snd (calc_properties_all_files tq dc self reg snap cf up dbg))) = 0"
  using assms
  by (simp add: calc_properties_all_files_def split: option.splits)

text \<open>
  C8: when the data class reports a non-zero number of galaxies, the sub-files requested
  from \<open>read_gals\<close> are always an initial part of
  \<open>first_file_to_analyze, ..., last_file_to_analyze\<close> in ascending order, and all of them,
  once each, when the call returns. For a sub-file whose batch is \<open>None\<close> the loop body
  does nothing but the read: no calculation function is called, the model stays as
  \<open>read_gals\<close> left it, and the loop goes on with the next sub-file.
\<close>

theorem files_requested_in_ascending_order:
  assumes "update_snapshot_and_data_path dc self snap = (Returned (), s1)"
    and "determine_num_gals dc s1 snap = (Returned (), s2)"
    and "num_gals_all_files s2 = Some n"
    and "n \<noteq> 0"
    and "first_file_to_analyze s2 = Some a"
    and "last_file_to_analyze s2 = Some b"
  shows "prefix (files_read (snd (snd (calc_properties_all_files tq dc self reg snap cf up dbg))))
           [a..b]
       \<and> (fst (calc_properties_all_files tq dc self reg snap cf up dbg) = Returned () \<longrightarrow>
            files_read (snd (snd (calc_properties_all_files tq dc self reg snap cf up dbg)))
              = [a..b])
       \<and> (read_gals dc m f snap pbar dbg = (Returned None, m1) \<longrightarrow>
            process_file dc reg snap pbar dbg f m
              = (Returned (), m1, [Ev_read_gals f snap pbar dbg])
          \<and> for_each (process_file dc reg snap pbar dbg) (f # fs) m
              = (case for_each (process_file dc reg snap pbar dbg) fs m1 of
                   (r, m2, evs) \<Rightarrow> (r, m2, Ev_read_gals f snap pbar dbg # evs)))"
proof -
  let ?run = "calc_properties_all_files tq dc self reg snap cf up dbg"
  let ?pbar = "make_pbar tq up dbg n"
  let ?loop = "for_each (process_file dc reg snap ?pbar dbg) [a..b] s2"
  obtain r3 s3 evs where l: "?loop = (r3, s3, evs)"
    by (cases ?loop) auto
  obtain r4 s4 where c: "close_file dc s3 = (r4, s4)"
    by (cases "close_file dc s3") auto
  have fr: "prefix (files_read evs) [a..b] \<and> (r3 = Returned () \<longrightarrow> files_read evs = [a..b])"
    using file_loop_files_read [of dc reg snap ?pbar dbg "[a..b]" s2] by (simp add: l)
  have shape: "files_read (snd (snd ?run)) = files_read evs
             \<and> (fst ?run = Returned () \<longrightarrow> r3 = Returned ())"
    using assms
    by (cases r3; cases r4)
       (simp_all add: calc_properties_all_files_def Let_def l c files_read_append)
  have skip: "process_file dc reg snap pbar dbg f m
                = (Returned (), m1, [Ev_read_gals f snap pbar dbg])
            \<and> for_each (process_file dc reg snap pbar dbg) (f # fs) m
                = (case for_each (process_file dc reg snap pbar dbg) fs m1 of
                     (r, m2, evs) \<Rightarrow> (r, m2, Ev_read_gals f snap pbar dbg # evs))"
    if "read_gals dc m f snap pbar dbg = (Returned None, m1)"
    using that by (simp add: process_file_def split: prod.splits)
  show ?thesis
    using fr shape skip by simp
qed

text \<open>
  The path with galaxies does close: with \<open>close_file=True\<close> a call that returns has
  asked the data class to close exactly once.
\<close>

lemma close_file_called_once_when_galaxies_exist:
  assumes "update_snapshot_and_data_path dc self snap = (Returned (), s1)"
    and "determine_num_gals dc s1 snap = (Returned (), s2)"
    and "num_gals_all_files s2 = Some n"
    and "n \<noteq> 0"
    and "fst (calc_properties_all_files tq dc self reg snap True up dbg) = Returned ()"
  shows "closes (snd (snd (calc_properties_all_files tq dc self reg snap True up dbg))) = 1"
proof -
  let ?pbar = "make_pbar tq up dbg n"
  show ?thesis
  proof (cases "first_file_to_analyze s2")
    case None
    then show ?thesis
      using assms by (simp add: calc_properties_all_files_def Let_def)
  next
    case (Some a)
    note a = Some
    show ?thesis
    proof (cases "last_file_to_analyze s2")
      case None
      then show ?thesis
        using assms a by (simp add: calc_properties_all_files_def Let_def)
    next
      case (Some b)
      let ?loop = "for_each (process_file dc reg snap ?pbar dbg) [a..b] s2"
      obtain r3 s3 evs where l: "?loop = (r3, s3, evs)"
        by (cases ?loop) auto
      obtain r4 s4 where c: "close_file dc s3 = (r4, s4)"
        by (cases "close_file dc s3") auto
      have z: "closes evs = 0"
        using file_loop_no_close_no_bar [of dc reg snap ?pbar dbg "[a..b]" s2] by (simp add: l)
      show ?thesis
        using assms a Some z
        by (cases r3; cases r4)
           (simp_all add: calc_properties_all_files_def Let_def l c closes_append)
    qed
  qed
qed


lemma stored_other_fields [simp]:
  "stored (m\<lparr>snapshot := x\<rparr>) = stored m"
  "stored (m\<lparr>num_gals_all_files := y\<rparr>) = stored m"
  by (simp_all add: stored_def fun_eq_iff)

lemma demo_store_fields:
  "first_file_to_analyze demo_store = Some 0"
  "last_file_to_analyze demo_store = Some 1"
  by (simp_all add: demo_store_def init_single_properties_def properties_setitem_eq
        demo_model_def)

lemma upto_0_1: "[0..1] = [0, 1::int]"
  by (simp add: upto_rec1)

lemma demo_run:
  "calc_properties_all_files True demo_data_class demo_store demo_registry 7 True True False =
     (Returned (),
      properties_setitem
        (properties_setitem (demo_store\<lparr>snapshot := Some 7, num_gals_all_files := Some 2\<rparr>)
           (snapshot_key 7) ''TotalMass'' (Float 3))
        (snapshot_key 7) ''NumGals'' (Float 2),
      [Ev_update_snapshot 7, Ev_determine_num_gals 7, Ev_tqdm 2,
       Ev_read_gals 0 7 (Some 2) False, Ev_print_registry,
       Ev_call ''TotalMass'' [1, 2] 7 1, Ev_call ''NumGals'' [1, 2] 7 1,
       Ev_read_gals 1 7 (Some 2) False, Ev_close_file])"
proof -
  let ?s2 = "demo_store\<lparr>snapshot := Some 7, num_gals_all_files := Some 2\<rparr>"
  have t: "stored ?s2 (snapshot_key 7) ''TotalMass'' = Some (Float 0)"
    and g: "stored ?s2 (snapshot_key 7) ''NumGals'' = Some (Float 0)"
    by (simp_all add: stored_demo_store)
  have calc: "calc_properties ?s2 demo_registry [1, 2] 7 =
     (Returned (),
      properties_setitem (properties_setitem ?s2 (snapshot_key 7) ''TotalMass'' (Float 3))
        (snapshot_key 7) ''NumGals'' (Float 2),
      [Ev_call ''TotalMass'' [1, 2] 7 1, Ev_call ''NumGals'' [1, 2] 7 1])"
    using demo_registry_run [OF t g, of "[1, 2]"] by simp
  show ?thesis
    by (simp add: calc_properties_all_files_def demo_data_class_def make_pbar_def Let_def
          demo_store_fields upto_0_1 process_file_def calc)
qed

lemma empty_run:
  "calc_properties_all_files True empty_data_class demo_store demo_registry 7 cf True False =
     (Returned (), demo_store\<lparr>snapshot := Some 7, num_gals_all_files := Some 0\<rparr>,
      [Ev_update_snapshot 7, Ev_determine_num_gals 7, Ev_log_info 7, Ev_print_num_gals 0])"
  by (simp add: calc_properties_all_files_def empty_data_class_def)

text \<open>
  A data class that finds no galaxies at snapshot 7.
\<close>

theorem zero_galaxies_leave_store_untouched_witness:
  "update_snapshot_and_data_path empty_data_class demo_store 7
     = (Returned (), demo_store\<lparr>snapshot := Some 7\<rparr>)
   \<and> determine_num_gals empty_data_class (demo_store\<lparr>snapshot := Some 7\<rparr>) 7
       = (Returned (), demo_store\<lparr>snapshot := Some 7, num_gals_all_files := Some 0\<rparr>)
   \<and> calc_properties_all_files True empty_data_class demo_store demo_registry 7 False True False
       = (Returned (), demo_store\<lparr>snapshot := Some 7, num_gals_all_files := Some 0\<rparr>,
          [Ev_update_snapshot 7, Ev_determine_num_gals 7, Ev_log_info 7, Ev_print_num_gals 0])
   \<and> properties (fst (snd (calc_properties_all_files True empty_data_class demo_store
                              demo_registry 7 False True False)))
       = properties demo_store"
proof -
  let ?s1 = "demo_store\<lparr>snapshot := Some 7\<rparr>"
  let ?s2 = "demo_store\<lparr>snapshot := Some 7, num_gals_all_files := Some 0\<rparr>"
  have u: "update_snapshot_and_data_path empty_data_class demo_store 7 = (Returned (), ?s1)"
    by (simp add: empty_data_class_def)
  have d: "determine_num_gals empty_data_class ?s1 7 = (Returned (), ?s2)"
    by (simp add: empty_data_class_def)
  have n: "num_gals_all_files ?s2 = Some 0"
    by simp
  have p1: "properties ?s1 = properties demo_store"
    by simp
  have p2: "properties ?s2 = properties ?s1"
    by simp
  show ?thesis
    using u d
      zero_galaxies_leave_store_untouched [OF u d n p1 p2, of True demo_registry False True False]
    by simp
qed

text \<open>
  C2 fails on the code: with \<open>close_file=True\<close> and a data class that reports zero
  galaxies, the early \<open>return\<close> ends the call before \<open>close_file\<close> is reached, so the
  data class is never asked to close.
\<close>

theorem close_file_skipped_when_no_galaxies:
  "calc_properties_all_files True empty_data_class demo_store demo_registry 7 True True False
     = (Returned (), demo_store\<lparr>snapshot := Some 7, num_gals_all_files := Some 0\<rparr>,
        [Ev_update_snapshot 7, Ev_determine_num_gals 7, Ev_log_info 7, Ev_print_num_gals 0])
   \<and> closes (snd (snd (calc_properties_all_files True empty_data_class demo_store demo_registry
                          7 True True False))) = 0"
  by (simp add: empty_run)

text \<open>
  Sub-file 0 holds two galaxies of masses 1 and 2, sub-file 1 is skipped: both are
  requested, the functions are called for sub-file 0 only, and \<open>TotalMass\<close> ends at 3.
\<close>

theorem files_requested_in_ascending_order_witness:
  "fst (calc_properties_all_files True demo_data_class demo_store demo_registry 7 True True False)
     = Returned ()
   \<and> files_read (snd (snd (calc_properties_all_files True demo_data_class demo_store
                              demo_registry 7 True True False))) = [0, 1]
   \<and> calls_made (snd (snd (calc_properties_all_files True demo_data_class demo_store
                              demo_registry 7 True True False)))
       = [(''TotalMass'', [1, 2], 7, 1), (''NumGals'', [1, 2], 7, 1)]
   \<and> stored (fst (snd (calc_properties_all_files True demo_data_class demo_store
                          demo_registry 7 True True False))) (snapshot_key 7) ''TotalMass''
       = Some (Float 3)
   \<and> read_gals demo_data_class demo_store 1 7 (Some 2) False = (Returned None, demo_store)
   \<and> process_file demo_data_class demo_registry 7 (Some 2) False 1 demo_store
       = (Returned (), demo_store, [Ev_read_gals 1 7 (Some 2) False])"
proof -
  let ?s1 = "demo_store\<lparr>snapshot := Some 7\<rparr>"
  let ?s2 = "demo_store\<lparr>snapshot := Some 7, num_gals_all_files := Some 2\<rparr>"
  have u: "update_snapshot_and_data_path demo_data_class demo_store 7 = (Returned (), ?s1)"
    by (simp add: demo_data_class_def)
  have d: "determine_num_gals demo_data_class ?s1 7 = (Returned (), ?s2)"
    by (simp add: demo_data_class_def)
  have n: "num_gals_all_files ?s2 = Some 2"
    by simp
  have nz: "(2::int) \<noteq> 0"
    by simp
  have a: "first_file_to_analyze ?s2 = Some 0"
    by (simp add: demo_store_fields)
  have b: "last_file_to_analyze ?s2 = Some 1"
    by (simp add: demo_store_fields)
  have rd: "read_gals demo_data_class demo_store 1 7 (Some 2) False = (Returned None, demo_store)"
    by (simp add: demo_data_class_def)
  show ?thesis
    using rd
      files_requested_in_ascending_order [OF u d n nz a b,
        of True demo_registry True True False demo_store 1 "Some 2" demo_store "[]"]
    by (simp add: demo_run upto_0_1 stored_setitem)
qed


end
